theory Spec2Isabelle
  imports Complex_Main
begin

section \<open>Data model (app.py, lines 40--114)\<close>

text \<open>
  Every SQLAlchemy model is a record carrying the columns the handlers below read or write.
  Columns of type Float are idealised as reals; Integer columns are unbounded integers, so
  a stock or a quantity may become zero or negative exactly where the code lets it.
  \<open>Order.status\<close> and \<open>Order.payment_mode\<close> are strings persisted verbatim.
\<close>

record user =
  u_username :: string
  u_email :: string
  u_address :: "string option"
  u_contact_number :: "string option"

record product =
  p_name :: string
  p_price :: real
  p_stock :: int

record cart_item =
  ci_id :: int
  ci_user_id :: int
  ci_product_id :: int
  ci_quantity :: int

record order =
  o_id :: int
  o_user_id :: int
  o_total_amount :: real
  o_status :: string
  o_delivery_address :: string
  o_contact_number :: string
  o_payment_mode :: string
  o_transaction_id :: "string option"

record order_item =
  oi_id :: int
  oi_order_id :: int
  oi_product_id :: int
  oi_quantity :: int
  oi_price :: real

text \<open>
  The database: \<open>User\<close> and \<open>Product\<close> are only ever fetched by primary key
  (\<open>query.get\<close>), so they are maps from the key; the other tables are filtered and appended
  to, so they are lists of rows in insertion order.
\<close>

record db =
  users :: "int \<rightharpoonup> user"
  products :: "int \<rightharpoonup> product"
  cart_items :: "cart_item list"
  orders :: "order list"
  order_items :: "order_item list"

text \<open>
  \<open>db.session\<close>: the rows as last committed and the rows as the running request sees them.
  What a request leaves behind is the committed part.
\<close>

record db_session =
  committed :: db
  pending :: db

definition open_session :: "db \<Rightarrow> db_session" where
  "open_session d = \<lparr>committed = d, pending = d\<rparr>"

definition modify :: "(db \<Rightarrow> db) \<Rightarrow> db_session \<Rightarrow> db_session" where
  "modify f s = s\<lparr>pending := f (pending s)\<rparr>"

definition commit :: "db_session \<Rightarrow> db_session" where
  "commit s = s\<lparr>committed := pending s\<rparr>"

definition rollback :: "db_session \<Rightarrow> db_session" where
  "rollback s = s\<lparr>pending := committed s\<rparr>"

text \<open>The key a freshly inserted row receives: one more than the largest key in the table.\<close>

definition next_id :: "int list \<Rightarrow> int" where
  "next_id ids = fold max ids 0 + 1"

section \<open>Configuration, external libraries, requests and responses\<close>

text \<open>
  \<open>app.config\<close> is read through \<open>.get\<close>, so a key may be absent; the Razorpay client is
  absent when the import failed (app.py, lines 24--28). The client's \<open>order.create\<close> is an
  external call: it returns the gateway's order id, or raises (\<open>None\<close>).
\<close>

record create_order_args =
  co_amount :: int
  co_currency :: string
  co_receipt_order_id :: int
  co_note_internal_order_id :: int
  co_note_user_id :: int

record config =
  razorpay :: "(create_order_args \<Rightarrow> string option) option"
  RAZORPAY_KEY_ID :: "string option"
  RAZORPAY_KEY_SECRET :: "string option"

text \<open>Python truthiness of an optional string and of an optional integer.\<close>

definition truthy_str :: "string option \<Rightarrow> bool" where
  "truthy_str s = (case s of None \<Rightarrow> False | Some v \<Rightarrow> v \<noteq> [])"

definition truthy_int :: "int option \<Rightarrow> bool" where
  "truthy_int n = (case n of None \<Rightarrow> False | Some v \<Rightarrow> v \<noteq> 0)"

record payment_view =
  pv_razorpay_key_id :: string
  pv_razorpay_order_id :: string
  pv_total_amount :: real
  pv_order_id :: int
  pv_customer_name :: string
  pv_customer_email :: string
  pv_customer_contact :: "string option"

datatype response =
    Redirect string "int option"
  | Render string
  | RenderPayment payment_view
  | Plain string nat
  | NotFound
  | InternalServerError

record form =
  delivery_address :: string
  contact_number :: string
  payment_mode :: string

datatype http_request = GET | POST form

text \<open>
  The webhook body as the handler reads it after \<open>json.loads\<close>: the \<open>event\<close> key and the
  entity under \<open>payload.payment.entity\<close>. A key the handler subscripts and does not find
  raises KeyError, which is \<open>None\<close> here; the two notes are read with \<open>.get\<close> and carry the
  integers that checkout attached (app.py, lines 400--403). A JSON null \<open>order_id\<close> is
  \<open>None\<close>, which \<open>filter_by\<close> compares with \<open>IS NULL\<close>.
\<close>

record payment_entity =
  pe_id :: string
  pe_order_id :: "string option"
  pe_internal_order_id :: "int option"
  pe_user_id :: "int option"

record webhook_event =
  ev_event :: "string option"
  ev_entity :: "payment_entity option"

datatype json_result = JSONDecodeError | Loaded webhook_event

record libs =
  hmac_sha256_hexdigest :: "string \<Rightarrow> string \<Rightarrow> string"
  json_loads :: "string \<Rightarrow> json_result"

record webhook_request =
  req_payload :: string
  req_signature :: "string option"

section \<open>Cart handlers (app.py, lines 256--307)\<close>

definition set_quantity :: "int \<Rightarrow> int \<Rightarrow> db \<Rightarrow> db" where
  "set_quantity item_id q d =
     d\<lparr>cart_items := map (\<lambda>c. if ci_id c = item_id then c\<lparr>ci_quantity := q\<rparr> else c) (cart_items d)\<rparr>"

definition add_to_cart :: "int option \<Rightarrow> int \<Rightarrow> db \<Rightarrow> response \<times> db" where
  "add_to_cart session product_id d =
     (case session of
        None \<Rightarrow> (Redirect ''login'' None, d)
      | Some user_id \<Rightarrow>
          (case products d product_id of
             None \<Rightarrow> (NotFound, d)
           | Some product \<Rightarrow>
               if p_stock product \<le> 0 then (Redirect ''product_detail'' (Some product_id), d)
               else
                 (case find (\<lambda>c. ci_user_id c = user_id \<and> ci_product_id c = product_id) (cart_items d) of
                    Some cart_item \<Rightarrow>
                      if ci_quantity cart_item \<ge> p_stock product then (Redirect ''view_cart'' None, d)
                      else (Redirect ''view_cart'' None,
                            set_quantity (ci_id cart_item) (ci_quantity cart_item + 1) d)
                  | None \<Rightarrow>
                      (Redirect ''view_cart'' None,
                       d\<lparr>cart_items := cart_items d @
                            [\<lparr>ci_id = next_id (map ci_id (cart_items d)), ci_user_id = user_id,
                              ci_product_id = product_id, ci_quantity = 1\<rparr>]\<rparr>))))"

text \<open>
  The submitted quantity is \<open>None\<close> when \<open>int(...)\<close> raises ValueError. The product of the
  cart item is only dereferenced in the third branch of the chain; a dangling reference raises
  there and nothing is committed.
\<close>

definition update_cart :: "int option \<Rightarrow> int \<Rightarrow> int option \<Rightarrow> db \<Rightarrow> response \<times> db" where
  "update_cart session item_id quantity d =
     (case session of
        None \<Rightarrow> (Redirect ''login'' None, d)
      | Some user_id \<Rightarrow>
          (case find (\<lambda>c. ci_id c = item_id) (cart_items d) of
             None \<Rightarrow> (NotFound, d)
           | Some cart_item \<Rightarrow>
               if ci_user_id cart_item \<noteq> user_id then (Redirect ''view_cart'' None, d)
               else
                 (case quantity of
                    None \<Rightarrow> (Redirect ''view_cart'' None, d)
                  | Some new_quantity \<Rightarrow>
                      if new_quantity < 0 then (Redirect ''view_cart'' None, d)
                      else if new_quantity = 0 then
                        (Redirect ''view_cart'' None,
                         d\<lparr>cart_items := filter (\<lambda>c. ci_id c \<noteq> item_id) (cart_items d)\<rparr>)
                      else
                        (case products d (ci_product_id cart_item) of
                           None \<Rightarrow> (InternalServerError, d)
                         | Some product \<Rightarrow>
                             if new_quantity > p_stock product then
                               (Redirect ''view_cart'' None, set_quantity item_id (p_stock product) d)
                             else (Redirect ''view_cart'' None, set_quantity item_id new_quantity d)))))"

section \<open>Checkout (app.py, lines 331--436)\<close>

text \<open>\<open>sum(item.product.price * item.quantity ...)\<close>; a cart item without product raises.\<close>

fun cart_total :: "db \<Rightarrow> cart_item list \<Rightarrow> real option" where
  "cart_total d [] = Some 0"
| "cart_total d (item # items) =
     (case products d (ci_product_id item) of
        None \<Rightarrow> None
      | Some p \<Rightarrow>
          (case cart_total d items of
             None \<Rightarrow> None
           | Some t \<Rightarrow> Some (p_price p * real_of_int (ci_quantity item) + t)))"

text \<open>Python's \<open>int\<close> of a float truncates towards zero.\<close>

definition py_int :: "real \<Rightarrow> int" where
  "py_int r = (if 0 \<le> r then \<lfloor>r\<rfloor> else \<lceil>r\<rceil>)"

text \<open>The test of the stock loop, lines 357--361.\<close>

definition insufficient :: "db \<Rightarrow> cart_item \<Rightarrow> bool" where
  "insufficient d item =
     (case products d (ci_product_id item) of
        None \<Rightarrow> False
      | Some p \<Rightarrow> ci_quantity item > p_stock p)"

text \<open>One round of the loop of lines 376--388.\<close>

definition reserve_item :: "int \<Rightarrow> string \<Rightarrow> cart_item \<Rightarrow> db \<Rightarrow> db" where
  "reserve_item order_id mode item d =
     (case products d (ci_product_id item) of
        None \<Rightarrow> d
      | Some p \<Rightarrow>
          let d1 = d\<lparr>order_items := order_items d @
                        [\<lparr>oi_id = next_id (map oi_id (order_items d)), oi_order_id = order_id,
                          oi_product_id = ci_product_id item, oi_quantity = ci_quantity item,
                          oi_price = p_price p\<rparr>],
                     products := (products d)(ci_product_id item \<mapsto>
                                    p\<lparr>p_stock := p_stock p - ci_quantity item\<rparr>)\<rparr>
          in if mode = ''COD''
             then d1\<lparr>cart_items := filter (\<lambda>c. ci_id c \<noteq> ci_id item) (cart_items d1)\<rparr>
             else d1)"

text \<open>The client is used only when the library and both keys are there (line 392).\<close>

definition gateway_client :: "config \<Rightarrow> ((create_order_args \<Rightarrow> string option) \<times> string) option" where
  "gateway_client cfg =
     (case (razorpay cfg, RAZORPAY_KEY_ID cfg, RAZORPAY_KEY_SECRET cfg) of
        (Some create, Some key_id, Some key_secret) \<Rightarrow>
          if key_id \<noteq> [] \<and> key_secret \<noteq> [] then Some (create, key_id) else None
      | _ \<Rightarrow> None)"

definition initiate_payment :: "int \<Rightarrow> string \<Rightarrow> db \<Rightarrow> db" where
  "initiate_payment order_id razorpay_order_id d =
     d\<lparr>orders := map (\<lambda>r. if o_id r = order_id
                           then r\<lparr>o_transaction_id := Some razorpay_order_id,
                                  o_status := ''Payment Initiated''\<rparr>
                           else r) (orders d)\<rparr>"

text \<open>The argument of \<open>client.order.create\<close>, lines 396--404.\<close>

definition order_create_args :: "int \<Rightarrow> int \<Rightarrow> real \<Rightarrow> create_order_args" where
  "order_create_args order_id user_id total_amount =
     \<lparr>co_amount = py_int (total_amount * 100), co_currency = ''INR'',
      co_receipt_order_id = order_id, co_note_internal_order_id = order_id,
      co_note_user_id = user_id\<rparr>"

text \<open>The body of the POST branch, lines 346--434.\<close>

definition place_order ::
  "config \<Rightarrow> int \<Rightarrow> user \<Rightarrow> cart_item list \<Rightarrow> real \<Rightarrow> form \<Rightarrow> db_session \<Rightarrow> response \<times> db" where
  "place_order cfg user_id usr cart total_amount frm s0 =
     (let usr' = usr\<lparr>u_address := Some (delivery_address frm),
                     u_contact_number := Some (contact_number frm)\<rparr>;
          s1 = commit (modify (\<lambda>d. d\<lparr>users := (users d)(user_id \<mapsto> usr')\<rparr>) s0)
      in case find (insufficient (pending s1)) cart of
           Some item \<Rightarrow> (Redirect ''view_cart'' None, committed s1)
         | None \<Rightarrow>
             let new_order = \<lparr>o_id = next_id (map o_id (orders (pending s1))),
                              o_user_id = user_id, o_total_amount = total_amount,
                              o_status = ''Pending'',
                              o_delivery_address = delivery_address frm,
                              o_contact_number = contact_number frm,
                              o_payment_mode = payment_mode frm,
                              o_transaction_id = None\<rparr>;
                 s2 = modify (\<lambda>d. d\<lparr>orders := orders d @ [new_order]\<rparr>) s1;
                 s3 = modify (fold (reserve_item (o_id new_order) (payment_mode frm)) cart) s2
             in if payment_mode frm = ''UPI'' \<or> payment_mode frm = ''Debit Card'' then
                  (case gateway_client cfg of
                     Some (create, key_id) \<Rightarrow>
                       (case create (order_create_args (o_id new_order) user_id total_amount) of
                          Some razorpay_order_id \<Rightarrow>
                            let s4 = commit (modify (initiate_payment (o_id new_order) razorpay_order_id) s3)
                            in (RenderPayment
                                  \<lparr>pv_razorpay_key_id = key_id,
                                   pv_razorpay_order_id = razorpay_order_id,
                                   pv_total_amount = total_amount,
                                   pv_order_id = o_id new_order,
                                   pv_customer_name = u_username usr',
                                   pv_customer_email = u_email usr',
                                   pv_customer_contact = u_contact_number usr'\<rparr>,
                                committed s4)
                        | None \<Rightarrow> (Redirect ''checkout'' None, committed (rollback s3)))
                   | None \<Rightarrow> (Redirect ''checkout'' None, committed (rollback s3)))
                else (Redirect ''order_confirmation'' (Some (o_id new_order)), committed (commit s3)))"

definition checkout :: "config \<Rightarrow> int option \<Rightarrow> http_request \<Rightarrow> db \<Rightarrow> response \<times> db" where
  "checkout cfg session req d =
     (case session of
        None \<Rightarrow> (Redirect ''login'' None, d)
      | Some user_id \<Rightarrow>
          let cart = filter (\<lambda>c. ci_user_id c = user_id) (cart_items d)
          in if cart = [] then (Redirect ''index'' None, d)
             else
               (case cart_total d cart of
                  None \<Rightarrow> (InternalServerError, d)
                | Some total_amount \<Rightarrow>
                    (case req of
                       GET \<Rightarrow> (Render ''checkout.html'', d)
                     | POST frm \<Rightarrow>
                         (case users d user_id of
                            None \<Rightarrow> (InternalServerError, d)
                          | Some usr \<Rightarrow>
                              place_order cfg user_id usr cart total_amount frm (open_session d)))))"

section \<open>Razorpay webhook (app.py, lines 523--610)\<close>

text \<open>\<open>Order.query.filter_by(id=..., transaction_id=...).first()\<close>\<close>

definition find_order :: "int \<Rightarrow> string option \<Rightarrow> db \<Rightarrow> order option" where
  "find_order internal_order_id razorpay_order_id d =
     find (\<lambda>r. o_id r = internal_order_id \<and> o_transaction_id r = razorpay_order_id) (orders d)"

definition set_status :: "int \<Rightarrow> string \<Rightarrow> db \<Rightarrow> db" where
  "set_status order_id st d =
     d\<lparr>orders := map (\<lambda>r. if o_id r = order_id then r\<lparr>o_status := st\<rparr> else r) (orders d)\<rparr>"

text \<open>Lines 555--578. Both statements are committed at once, so the session is left out.\<close>

definition payment_captured :: "payment_entity \<Rightarrow> db \<Rightarrow> db" where
  "payment_captured e d =
     (if truthy_int (pe_internal_order_id e) \<and> truthy_int (pe_user_id e) then
        (case (pe_internal_order_id e, pe_user_id e) of
           (Some internal_order_id, Some user_id_from_notes) \<Rightarrow>
             (case find_order internal_order_id (pe_order_id e) d of
                None \<Rightarrow> d
              | Some ord \<Rightarrow>
                  if o_status ord = ''Payment Initiated'' then
                    let d1 = set_status (o_id ord) ''Confirmed'' d
                    in d1\<lparr>cart_items := filter (\<lambda>c. ci_user_id c \<noteq> user_id_from_notes) (cart_items d1)\<rparr>
                  else d)
         | _ \<Rightarrow> d)
      else d)"

text \<open>Lines 581--595.\<close>

definition payment_failed :: "payment_entity \<Rightarrow> db \<Rightarrow> db" where
  "payment_failed e d =
     (if truthy_int (pe_internal_order_id e) then
        (case pe_internal_order_id e of
           Some internal_order_id \<Rightarrow>
             (case find_order internal_order_id (pe_order_id e) d of
                None \<Rightarrow> d
              | Some ord \<Rightarrow>
                  if o_status ord = ''Payment Initiated''
                  then set_status (o_id ord) ''Payment Failed'' d
                  else d)
         | None \<Rightarrow> d)
      else d)"

definition razorpay_webhook :: "libs \<Rightarrow> config \<Rightarrow> webhook_request \<Rightarrow> db \<Rightarrow> response \<times> db" where
  "razorpay_webhook L cfg req d =
     (case req_signature req of
        None \<Rightarrow> (Plain ''Unauthorized'' 401, d)
      | Some razorpay_signature \<Rightarrow>
          if razorpay_signature = [] then (Plain ''Unauthorized'' 401, d)
          else
            (case RAZORPAY_KEY_SECRET cfg of
               None \<Rightarrow> (Plain ''Internal Server Error'' 500, d)
             | Some key_secret \<Rightarrow>
                 if key_secret = [] then (Plain ''Internal Server Error'' 500, d)
                 else if hmac_sha256_hexdigest L key_secret (req_payload req) = razorpay_signature then
                   (case json_loads L (req_payload req) of
                      JSONDecodeError \<Rightarrow> (Plain ''Invalid JSON'' 400, d)
                    | Loaded event \<Rightarrow>
                        (case ev_event event of
                           None \<Rightarrow> (Plain ''Internal Server Error'' 500, d)
                         | Some event_type \<Rightarrow>
                             if event_type = ''payment.captured'' then
                               (case ev_entity event of
                                  None \<Rightarrow> (Plain ''Internal Server Error'' 500, d)
                                | Some e \<Rightarrow> (Plain ''OK'' 200, payment_captured e d))
                             else if event_type = ''payment.failed'' then
                               (case ev_entity event of
                                  None \<Rightarrow> (Plain ''Internal Server Error'' 500, d)
                                | Some e \<Rightarrow> (Plain ''OK'' 200, payment_failed e d))
                             else (Plain ''OK'' 200, d)))
                 else (Plain ''Signature mismatch'' 400, d)))"

text \<open>A webhook is verified when the handler gets as far as dispatching on the event.\<close>

definition verified :: "libs \<Rightarrow> config \<Rightarrow> webhook_request \<Rightarrow> string \<Rightarrow> payment_entity \<Rightarrow> bool" where
  "verified L cfg req event_type e =
     (case (req_signature req, RAZORPAY_KEY_SECRET cfg) of
        (Some sg, Some key_secret) \<Rightarrow>
          sg \<noteq> [] \<and> key_secret \<noteq> [] \<and>
          hmac_sha256_hexdigest L key_secret (req_payload req) = sg \<and>
          json_loads L (req_payload req) = Loaded \<lparr>ev_event = Some event_type, ev_entity = Some e\<rparr>
      | _ \<Rightarrow> False)"

text \<open>A request fails verification: no signature, or one that differs from the recomputed one.\<close>

definition bad_signature :: "libs \<Rightarrow> config \<Rightarrow> webhook_request \<Rightarrow> bool" where
  "bad_signature L cfg req =
     (case req_signature req of
        None \<Rightarrow> True
      | Some sg \<Rightarrow>
          sg = [] \<or>
          (case RAZORPAY_KEY_SECRET cfg of
             None \<Rightarrow> False
           | Some key_secret \<Rightarrow>
               key_secret \<noteq> [] \<and> hmac_sha256_hexdigest L key_secret (req_payload req) \<noteq> sg))"

section \<open>Properties the theorems below talk about\<close>

text \<open>
  The bound of the data model on one database: every cart item refers to a product and its
  quantity lies between 1 and that product's stock.
\<close>

definition cart_bounded :: "db \<Rightarrow> bool" where
  "cart_bounded d =
     list_all (\<lambda>c. case products d (ci_product_id c) of
                        None \<Rightarrow> False
                      | Some p \<Rightarrow> 1 \<le> ci_quantity c \<and> ci_quantity c \<le> p_stock p) (cart_items d)"

text \<open>The primary key of the cart table.\<close>

definition cart_keys_distinct :: "db \<Rightarrow> bool" where
  "cart_keys_distinct d = distinct (map ci_id (cart_items d))"

text \<open>The stock of a product, when the product exists.\<close>

definition stock_of :: "db \<Rightarrow> int \<Rightarrow> int option" where
  "stock_of d product_id = map_option p_stock (products d product_id)"

text \<open>The units of one product that a list of cart items asks for.\<close>

definition units_in_cart :: "cart_item list \<Rightarrow> int \<Rightarrow> int" where
  "units_in_cart cart product_id =
     sum_list (map ci_quantity (filter (\<lambda>c. ci_product_id c = product_id) cart))"


text \<open>The cart of a user, as checkout queries it.\<close>

definition cart_of :: "db \<Rightarrow> int \<Rightarrow> cart_item list" where
  "cart_of d user_id = filter (\<lambda>c. ci_user_id c = user_id) (cart_items d)"

text \<open>
  A checkout submission that reaches the POST branch: the session's user exists, the cart
  is not empty and each of its items refers to a product.
\<close>

definition checkout_ready :: "db \<Rightarrow> int \<Rightarrow> bool" where
  "checkout_ready d user_id =
     (users d user_id \<noteq> None \<and> cart_of d user_id \<noteq> [] \<and>
      list_all (\<lambda>c. products d (ci_product_id c) \<noteq> None) (cart_of d user_id))"

text \<open>Every item of the user's cart asks for no more than the stock.\<close>

definition stock_suffices :: "db \<Rightarrow> int \<Rightarrow> bool" where
  "stock_suffices d user_id = list_all (\<lambda>c. \<not> insufficient d c) (cart_of d user_id)"

text \<open>
  The gateway call of a checkout fails: the gateway is not configured or its library is
  missing, or \<open>order.create\<close> raises on the request this checkout sends.
\<close>

definition gateway_call_fails :: "config \<Rightarrow> db \<Rightarrow> int \<Rightarrow> bool" where
  "gateway_call_fails cfg d user_id =
     (case gateway_client cfg of
        None \<Rightarrow> True
      | Some (create, key_id) \<Rightarrow>
          (case cart_total d (cart_of d user_id) of
             None \<Rightarrow> False
           | Some total_amount \<Rightarrow>
               create (order_create_args (next_id (map o_id (orders d))) user_id total_amount) = None))"

text \<open>The database once checkout has stored the submitted address and contact number.\<close>

definition profile_saved :: "int \<Rightarrow> user \<Rightarrow> form \<Rightarrow> db \<Rightarrow> db" where
  "profile_saved uid usr frm d =
     d\<lparr>users := (users d)(uid \<mapsto> usr\<lparr>u_address := Some (delivery_address frm),
                                       u_contact_number := Some (contact_number frm)\<rparr>)\<rparr>"

text \<open>The operations whose sequences preserve the cart bound.\<close>

datatype operation =
    AddToCart "int option" int
  | UpdateCart "int option" int "int option"
  | Webhook webhook_request

fun step :: "libs \<Rightarrow> config \<Rightarrow> operation \<Rightarrow> db \<Rightarrow> db" where
  "step L cfg (AddToCart session product_id) d = snd (add_to_cart session product_id d)"
| "step L cfg (UpdateCart session item_id quantity) d = snd (update_cart session item_id quantity d)"
| "step L cfg (Webhook req) d = snd (razorpay_webhook L cfg req d)"

definition run :: "libs \<Rightarrow> config \<Rightarrow> operation list \<Rightarrow> db \<Rightarrow> db" where
  "run L cfg ops d = fold (step L cfg) ops d"

section \<open>A concrete shop\<close>

text \<open>
  Two users, two products. User 1 has paid online for one unit of product 1 (order 1, waiting
  for the gateway under reference \<open>order_R1\<close>) and has both products in the cart; user 2 has
  product 1 in the cart.
\<close>

definition alice :: user where
  "alice = \<lparr>u_username = ''alice'', u_email = ''alice@example.com'',
             u_address = Some ''1 Main St'', u_contact_number = Some ''111''\<rparr>"

definition bob :: user where
  "bob = \<lparr>u_username = ''bob'', u_email = ''bob@example.com'',
           u_address = None, u_contact_number = None\<rparr>"

definition shop :: db where
  "shop = \<lparr>users = [1 \<mapsto> alice, 2 \<mapsto> bob],
            products = [1 \<mapsto> \<lparr>p_name = ''Wireless Mouse'', p_price = 25, p_stock = 4\<rparr>,
                        2 \<mapsto> \<lparr>p_name = ''USB-C Hub'', p_price = 40, p_stock = 3\<rparr>],
            cart_items = [\<lparr>ci_id = 1, ci_user_id = 1, ci_product_id = 1, ci_quantity = 1\<rparr>,
                          \<lparr>ci_id = 2, ci_user_id = 1, ci_product_id = 2, ci_quantity = 2\<rparr>,
                          \<lparr>ci_id = 3, ci_user_id = 2, ci_product_id = 1, ci_quantity = 1\<rparr>],
            orders = [\<lparr>o_id = 1, o_user_id = 1, o_total_amount = 25,
                       o_status = ''Payment Initiated'', o_delivery_address = ''1 Main St'',
                       o_contact_number = ''111'', o_payment_mode = ''UPI'',
                       o_transaction_id = Some ''order_R1''\<rparr>],
            order_items = [\<lparr>oi_id = 1, oi_order_id = 1, oi_product_id = 1, oi_quantity = 1,
                            oi_price = 25\<rparr>]\<rparr>"

text \<open>
  Stand-ins for the two libraries: the digest of a payload under a key is the key followed by
  the payload, and decoding knows the bodies named below.
\<close>

definition captured_entity :: payment_entity where
  "captured_entity = \<lparr>pe_id = ''pay_1'', pe_order_id = Some ''order_R1'',
                       pe_internal_order_id = Some 1, pe_user_id = Some 1\<rparr>"

definition forged_entity :: payment_entity where
  "forged_entity = captured_entity\<lparr>pe_user_id := Some 2\<rparr>"

definition anonymous_entity :: payment_entity where
  "anonymous_entity = captured_entity\<lparr>pe_user_id := None\<rparr>"

definition shop_libs :: libs where
  "shop_libs =
     \<lparr>hmac_sha256_hexdigest = (\<lambda>key msg. key @ msg),
      json_loads = (\<lambda>body.
        if body = ''captured'' then Loaded \<lparr>ev_event = Some ''payment.captured'', ev_entity = Some captured_entity\<rparr>
        else if body = ''captured-forged'' then Loaded \<lparr>ev_event = Some ''payment.captured'', ev_entity = Some forged_entity\<rparr>
        else if body = ''captured-anonymous'' then Loaded \<lparr>ev_event = Some ''payment.captured'', ev_entity = Some anonymous_entity\<rparr>
        else if body = ''failed'' then Loaded \<lparr>ev_event = Some ''payment.failed'', ev_entity = Some captured_entity\<rparr>
        else if body = ''failed-anonymous'' then Loaded \<lparr>ev_event = Some ''payment.failed'', ev_entity = Some anonymous_entity\<rparr>
        else JSONDecodeError)\<rparr>"

definition shop_config :: config where
  "shop_config = \<lparr>razorpay = Some (\<lambda>args. Some ''order_R2''),
                   RAZORPAY_KEY_ID = Some ''rzp_test'', RAZORPAY_KEY_SECRET = Some ''s3cret''\<rparr>"

text \<open>The same keys with a gateway that cannot be reached.\<close>

definition offline_config :: config where
  "offline_config = shop_config\<lparr>razorpay := Some (\<lambda>args. None)\<rparr>"

definition signed :: "string \<Rightarrow> webhook_request" where
  "signed body = \<lparr>req_payload = body, req_signature = Some (''s3cret'' @ body)\<rparr>"

definition tampered :: webhook_request where
  "tampered = \<lparr>req_payload = ''failed'', req_signature = Some ''s3cretcaptured''\<rparr>"

definition cod_form :: form where
  "cod_form = \<lparr>delivery_address = ''2 Side St'', contact_number = ''222'', payment_mode = ''COD''\<rparr>"

definition upi_form :: form where
  "upi_form = \<lparr>delivery_address = ''2 Side St'', contact_number = ''222'', payment_mode = ''UPI''\<rparr>"

text \<open>A shop whose user 1 asks for more hubs than there are.\<close>

definition greedy_shop :: db where
  "greedy_shop = set_quantity 2 5 shop"

text \<open>The same shop on its first day: nothing in any cart, no order yet.\<close>

definition fresh_shop :: db where
  "fresh_shop = shop\<lparr>cart_items := [], orders := [], order_items := []\<rparr>"

section \<open>Auxiliary facts about the webhook\<close>

lemma find_order_id:
  "find_order oid txn d = Some ord \<Longrightarrow> o_id ord = oid \<and> o_transaction_id ord = txn"
  by (auto simp: find_order_def find_Some_iff)

lemma find_relabel:
  assumes "\<And>x. P (f x) = P x"
  shows "find P (map f xs) = map_option f (find P xs)"
  using assms by (induction xs) auto

lemma find_order_set_status:
  "find_order oid txn (set_status k st d) =
     map_option (\<lambda>r. if o_id r = k then r\<lparr>o_status := st\<rparr> else r) (find_order oid txn d)"
  unfolding find_order_def set_status_def
  by (simp add: find_relabel)

lemma set_status_frame:
  "products (set_status k st d) = products d"
  "cart_items (set_status k st d) = cart_items d"
  "order_items (set_status k st d) = order_items d"
  "users (set_status k st d) = users d"
  by (simp_all add: set_status_def)

lemma webhook_verified:
  assumes "verified L cfg req event_type e"
  shows "razorpay_webhook L cfg req d =
           (Plain ''OK'' 200,
            if event_type = ''payment.captured'' then payment_captured e d
            else if event_type = ''payment.failed'' then payment_failed e d
            else d)"
  using assms
  by (auto simp: verified_def razorpay_webhook_def split: option.splits)

lemma payment_captured_applied:
  assumes "pe_internal_order_id e = Some oid" and "oid \<noteq> 0"
    and "pe_user_id e = Some uid" and "uid \<noteq> 0"
    and "find_order oid (pe_order_id e) d = Some ord"
    and "o_status ord = ''Payment Initiated''"
  shows "payment_captured e d =
           (set_status oid ''Confirmed'' d)
             \<lparr>cart_items := filter (\<lambda>c. ci_user_id c \<noteq> uid) (cart_items d)\<rparr>"
  using assms find_order_id [OF assms(5)]
  by (simp add: payment_captured_def truthy_int_def set_status_frame)

lemma find_order_cart_update:
  "find_order oid txn (d\<lparr>cart_items := cs\<rparr>) = find_order oid txn d"
  by (simp add: find_order_def)

lemma payment_captured_skipped:
  assumes "\<not> (truthy_int (pe_internal_order_id e) \<and> truthy_int (pe_user_id e))"
  shows "payment_captured e d = d"
  using assms
  by (cases "truthy_int (pe_internal_order_id e)"; cases "truthy_int (pe_user_id e)";
      simp add: payment_captured_def)

text \<open>The guard on the status is what absorbs a repeated delivery.\<close>

lemma payment_captured_again:
  "payment_captured e (payment_captured e d) = payment_captured e d"
proof (cases "truthy_int (pe_internal_order_id e) \<and> truthy_int (pe_user_id e)")
  case False
  then show ?thesis using payment_captured_skipped [of e] by simp
next
  case True
  then obtain oid uid where ids: "pe_internal_order_id e = Some oid" "oid \<noteq> 0"
      "pe_user_id e = Some uid" "uid \<noteq> 0"
    by (auto simp: truthy_int_def split: option.splits)
  show ?thesis
  proof (cases "find_order oid (pe_order_id e) d")
    case None
    then show ?thesis using ids by (simp add: payment_captured_def truthy_int_def)
  next
    case (Some ord)
    show ?thesis
    proof (cases "o_status ord = ''Payment Initiated''")
      case False
      then show ?thesis using ids Some by (simp add: payment_captured_def truthy_int_def)
    next
      case True
      have k: "o_id ord = oid" using Some by (simp add: find_order_id)
      have 1: "payment_captured e d =
                 (set_status oid ''Confirmed'' d)
                   \<lparr>cart_items := filter (\<lambda>c. ci_user_id c \<noteq> uid) (cart_items d)\<rparr>"
        using payment_captured_applied [OF ids Some True] .
      have 2: "find_order oid (pe_order_id e) (payment_captured e d) =
                 Some (ord\<lparr>o_status := ''Confirmed''\<rparr>)"
        using Some k by (simp add: 1 find_order_cart_update find_order_set_status)
      show ?thesis
        using ids 2 by (simp add: payment_captured_def [of e "payment_captured e d"] truthy_int_def)
    qed
  qed
qed

lemma find_order_same_orders:
  "orders d2 = orders d1 \<Longrightarrow> find_order oid txn d2 = find_order oid txn d1"
  by (simp add: find_order_def)

lemma payment_captured_unmatched:
  assumes "pe_internal_order_id e = Some oid"
    and "\<forall>ord. find_order oid (pe_order_id e) d = Some ord \<longrightarrow> o_status ord \<noteq> ''Payment Initiated''"
  shows "payment_captured e d = d"
  using assms
  by (cases "pe_user_id e"; cases "find_order oid (pe_order_id e) d")
     (auto simp: payment_captured_def)

lemma add_to_cart_orders:
  "orders (snd (add_to_cart session product_id d)) = orders d"
  by (simp add: add_to_cart_def set_quantity_def split: option.splits)

text \<open>
  Once an event has been delivered, the orders it leaves behind make every later delivery of
  it do nothing, whatever the other tables hold by then.
\<close>

lemma payment_captured_settled:
  assumes "orders d2 = orders (payment_captured e d)"
  shows "payment_captured e d2 = d2"
proof (cases "truthy_int (pe_internal_order_id e) \<and> truthy_int (pe_user_id e)")
  case False
  then show ?thesis by (rule payment_captured_skipped)
next
  case True
  then obtain oid uid where ids: "pe_internal_order_id e = Some oid" "oid \<noteq> 0"
      "pe_user_id e = Some uid" "uid \<noteq> 0"
    by (auto simp: truthy_int_def split: option.splits)
  have same: "find_order oid (pe_order_id e) d2 = find_order oid (pe_order_id e) (payment_captured e d)"
    using assms by (rule find_order_same_orders)
  show ?thesis
  proof (cases "\<exists>ord. find_order oid (pe_order_id e) d = Some ord \<and> o_status ord = ''Payment Initiated''")
    case True
    then obtain ord where o: "find_order oid (pe_order_id e) d = Some ord"
      "o_status ord = ''Payment Initiated''" by blast
    have k: "o_id ord = oid" using o(1) by (simp add: find_order_id)
    have "find_order oid (pe_order_id e) (payment_captured e d) = Some (ord\<lparr>o_status := ''Confirmed''\<rparr>)"
      using o(1) k
      by (simp add: payment_captured_applied [OF ids o] find_order_cart_update find_order_set_status)
    then have "\<forall>r. find_order oid (pe_order_id e) d2 = Some r \<longrightarrow> o_status r \<noteq> ''Payment Initiated''"
      by (simp add: same)
    with ids(1) show ?thesis by (rule payment_captured_unmatched)
  next
    case False
    then have n: "\<forall>r. find_order oid (pe_order_id e) d = Some r \<longrightarrow> o_status r \<noteq> ''Payment Initiated''"
      by blast
    have "payment_captured e d = d" using ids(1) n by (rule payment_captured_unmatched)
    then have "\<forall>r. find_order oid (pe_order_id e) d2 = Some r \<longrightarrow> o_status r \<noteq> ''Payment Initiated''"
      using n by (simp add: same)
    with ids(1) show ?thesis by (rule payment_captured_unmatched)
  qed
qed

text \<open>The first delivery of the captured event in the concrete shop.\<close>

lemma first_delivery_on_shop:
  "snd (razorpay_webhook shop_libs shop_config (signed ''captured'') shop) =
     shop\<lparr>orders := [\<lparr>o_id = 1, o_user_id = 1, o_total_amount = 25,
                       o_status = ''Confirmed'', o_delivery_address = ''1 Main St'',
                       o_contact_number = ''111'', o_payment_mode = ''UPI'',
                       o_transaction_id = Some ''order_R1''\<rparr>],
          cart_items := [\<lparr>ci_id = 3, ci_user_id = 2, ci_product_id = 1, ci_quantity = 1\<rparr>]\<rparr>"
  by (simp add: shop_libs_def shop_config_def signed_def razorpay_webhook_def
      payment_captured_def truthy_int_def captured_entity_def find_order_def shop_def set_status_def)

section \<open>Signature check\<close>

text \<open>
  C5. A webhook request without signature header (or with an empty one), or whose header
  differs from the digest recomputed over the raw payload with the configured secret, is
  refused and leaves the database as it was: no order, cart item or product row changes.
  The refusal is \<open>Unauthorized\<close>, 401, for the missing header and \<open>Signature mismatch\<close>,
  400, for the differing one, the two codes the interface section of the specification gives
  to its \<open>Unauthorized\<close> error.
\<close>

theorem webhook_rejects_bad_signature:
  assumes "bad_signature L cfg req"
  shows "razorpay_webhook L cfg req d =
           (if truthy_str (req_signature req) then Plain ''Signature mismatch'' 400
            else Plain ''Unauthorized'' 401, d)"
  using assms
  by (auto simp: bad_signature_def razorpay_webhook_def truthy_str_def split: option.splits)

theorem webhook_rejects_bad_signature_witness:
  "bad_signature shop_libs shop_config tampered \<and>
   razorpay_webhook shop_libs shop_config tampered shop = (Plain ''Signature mismatch'' 400, shop)"
proof -
  have h: "bad_signature shop_libs shop_config tampered"
    by (simp add: bad_signature_def shop_libs_def shop_config_def tampered_def)
  from webhook_rejects_bad_signature [OF h, of shop] h show ?thesis
    by (simp add: truthy_str_def tampered_def)
qed

section \<open>Failed payments\<close>




section \<open>Captured payments\<close>

text \<open>
  C4. The same verified \<open>payment.captured\<close> webhook delivered twice applies once.
  When the first delivery finds the order in \<open>Payment Initiated\<close>, it makes one status
  transition (the orders with that key become \<open>Confirmed\<close>, every other order is
  untouched) and one cart mutation (the cart items of the user named in the notes are
  deleted, all others kept), and touches no product, order item or user. The second delivery
  is acknowledged and changes nothing, and it is the status guard that makes it so: the same
  request changes nothing on any database whose orders are as the first delivery left them,
  whatever has been put in the carts since, and on any database in which the order found
  under the (internal order id, external reference) pair is not in \<open>Payment Initiated\<close>.
\<close>

theorem captured_twice_applies_once:
  assumes "verified L cfg req ''payment.captured'' e"
  shows "razorpay_webhook L cfg req (snd (razorpay_webhook L cfg req d)) =
           (Plain ''OK'' 200, snd (razorpay_webhook L cfg req d)) \<and>
         (\<forall>oid ord.
            pe_internal_order_id e = Some oid \<and> oid \<noteq> 0 \<and> truthy_int (pe_user_id e) \<and>
            find_order oid (pe_order_id e) d = Some ord \<and>
            o_status ord = ''Payment Initiated'' \<longrightarrow>
            find_order oid (pe_order_id e) (snd (razorpay_webhook L cfg req d)) =
              Some (ord\<lparr>o_status := ''Confirmed''\<rparr>)) \<and>
         (\<forall>oid uid ord.
            pe_internal_order_id e = Some oid \<and> oid \<noteq> 0 \<and>
            pe_user_id e = Some uid \<and> uid \<noteq> 0 \<and>
            find_order oid (pe_order_id e) d = Some ord \<and>
            o_status ord = ''Payment Initiated'' \<longrightarrow>
            orders (snd (razorpay_webhook L cfg req d)) =
              map (\<lambda>r. if o_id r = oid then r\<lparr>o_status := ''Confirmed''\<rparr> else r) (orders d) \<and>
            cart_items (snd (razorpay_webhook L cfg req d)) =
              filter (\<lambda>c. ci_user_id c \<noteq> uid) (cart_items d) \<and>
            products (snd (razorpay_webhook L cfg req d)) = products d \<and>
            order_items (snd (razorpay_webhook L cfg req d)) = order_items d \<and>
            users (snd (razorpay_webhook L cfg req d)) = users d) \<and>
         (\<forall>d2. orders d2 = orders (snd (razorpay_webhook L cfg req d)) \<longrightarrow>
               razorpay_webhook L cfg req d2 = (Plain ''OK'' 200, d2)) \<and>
         (\<forall>d2 oid ord.
            pe_internal_order_id e = Some oid \<and>
            find_order oid (pe_order_id e) d2 = Some ord \<and>
            o_status ord \<noteq> ''Payment Initiated'' \<longrightarrow>
            razorpay_webhook L cfg req d2 = (Plain ''OK'' 200, d2))"
proof -
  have w: "\<And>d. razorpay_webhook L cfg req d = (Plain ''OK'' 200, payment_captured e d)"
    using webhook_verified [OF assms] by simp
  have a: "razorpay_webhook L cfg req (snd (razorpay_webhook L cfg req d)) =
           (Plain ''OK'' 200, snd (razorpay_webhook L cfg req d))"
    by (simp add: w payment_captured_again)
  have b: "find_order oid (pe_order_id e) (snd (razorpay_webhook L cfg req d)) =
             Some (ord\<lparr>o_status := ''Confirmed''\<rparr>)"
    if i: "pe_internal_order_id e = Some oid" "oid \<noteq> 0"
      and t: "truthy_int (pe_user_id e)"
      and f: "find_order oid (pe_order_id e) d = Some ord"
      and s: "o_status ord = ''Payment Initiated''"
    for oid ord
  proof -
    from t obtain uid where u: "pe_user_id e = Some uid" "uid \<noteq> 0"
      by (auto simp: truthy_int_def split: option.splits)
    have k: "o_id ord = oid" using f by (simp add: find_order_id)
    show ?thesis
      using f k
      by (simp add: w payment_captured_applied [OF i u f s] find_order_cart_update
          find_order_set_status)
  qed
  have c: "orders (snd (razorpay_webhook L cfg req d)) =
              map (\<lambda>r. if o_id r = oid then r\<lparr>o_status := ''Confirmed''\<rparr> else r) (orders d) \<and>
            cart_items (snd (razorpay_webhook L cfg req d)) =
              filter (\<lambda>c. ci_user_id c \<noteq> uid) (cart_items d) \<and>
            products (snd (razorpay_webhook L cfg req d)) = products d \<and>
            order_items (snd (razorpay_webhook L cfg req d)) = order_items d \<and>
            users (snd (razorpay_webhook L cfg req d)) = users d"
    if i: "pe_internal_order_id e = Some oid" "oid \<noteq> 0"
      and u: "pe_user_id e = Some uid" "uid \<noteq> 0"
      and f: "find_order oid (pe_order_id e) d = Some ord"
      and s: "o_status ord = ''Payment Initiated''"
    for oid uid ord
    by (simp add: w payment_captured_applied [OF i u f s] set_status_def)
  have g: "razorpay_webhook L cfg req d2 = (Plain ''OK'' 200, d2)"
    if "orders d2 = orders (snd (razorpay_webhook L cfg req d))" for d2
    using that by (simp add: w payment_captured_settled)
  have h: "razorpay_webhook L cfg req d2 = (Plain ''OK'' 200, d2)"
    if i: "pe_internal_order_id e = Some oid"
      and f: "find_order oid (pe_order_id e) d2 = Some ord"
      and s: "o_status ord \<noteq> ''Payment Initiated''"
    for d2 oid ord
  proof -
    have "\<forall>r. find_order oid (pe_order_id e) d2 = Some r \<longrightarrow> o_status r \<noteq> ''Payment Initiated''"
      using f s by simp
    with i have "payment_captured e d2 = d2" by (rule payment_captured_unmatched)
    then show ?thesis by (simp add: w)
  qed
  from a b c g h show ?thesis by blast
qed

theorem captured_twice_applies_once_witness:
  "verified shop_libs shop_config (signed ''captured'') ''payment.captured'' captured_entity \<and>
   map_option o_status (find_order 1 (Some ''order_R1'') shop) = Some ''Payment Initiated'' \<and>
   map_option o_status (find_order 1 (Some ''order_R1'')
      (snd (razorpay_webhook shop_libs shop_config (signed ''captured'') shop))) = Some ''Confirmed'' \<and>
   cart_items (snd (razorpay_webhook shop_libs shop_config (signed ''captured'') shop)) =
     filter (\<lambda>c. ci_user_id c \<noteq> 1) (cart_items shop) \<and>
   cart_of shop 1 \<noteq> [] \<and>
   snd (razorpay_webhook shop_libs shop_config (signed ''captured'')
      (snd (razorpay_webhook shop_libs shop_config (signed ''captured'') shop))) =
   snd (razorpay_webhook shop_libs shop_config (signed ''captured'') shop) \<and>
   cart_of (snd (add_to_cart (Some 1) 2
      (snd (razorpay_webhook shop_libs shop_config (signed ''captured'') shop)))) 1 \<noteq> [] \<and>
   razorpay_webhook shop_libs shop_config (signed ''captured'')
      (snd (add_to_cart (Some 1) 2
         (snd (razorpay_webhook shop_libs shop_config (signed ''captured'') shop)))) =
     (Plain ''OK'' 200,
      snd (add_to_cart (Some 1) 2
         (snd (razorpay_webhook shop_libs shop_config (signed ''captured'') shop))))"
proof -
  let ?d1 = "snd (razorpay_webhook shop_libs shop_config (signed ''captured'') shop)"
  let ?d2 = "snd (add_to_cart (Some 1) 2 ?d1)"
  have v: "verified shop_libs shop_config (signed ''captured'') ''payment.captured'' captured_entity"
    by (simp add: verified_def shop_libs_def shop_config_def signed_def)
  have f: "find_order 1 (Some ''order_R1'') shop = Some (hd (orders shop))"
    by (simp add: find_order_def shop_def)
  have s: "o_status (hd (orders shop)) = ''Payment Initiated''"
    by (simp add: shop_def)
  have c: "cart_of shop 1 \<noteq> []"
    by (simp add: cart_of_def shop_def)
  have r: "cart_of ?d2 1 \<noteq> []"
    unfolding first_delivery_on_shop
    by (simp add: cart_of_def add_to_cart_def shop_def next_id_def)
  have o: "orders ?d2 = orders ?d1"
    by (rule add_to_cart_orders)
  note t = captured_twice_applies_once [OF v, of shop]
  from t have t1: "razorpay_webhook shop_libs shop_config (signed ''captured'') ?d1 = (Plain ''OK'' 200, ?d1)"
    by blast
  from t f s have t2: "find_order 1 (Some ''order_R1'') ?d1 = Some ((hd (orders shop))\<lparr>o_status := ''Confirmed''\<rparr>)"
    by (simp add: captured_entity_def truthy_int_def)
  from t f s have t3: "cart_items ?d1 = filter (\<lambda>c. ci_user_id c \<noteq> 1) (cart_items shop)"
    by (simp add: captured_entity_def)
  from t o have t4: "razorpay_webhook shop_libs shop_config (signed ''captured'') ?d2 = (Plain ''OK'' 200, ?d2)"
    by blast
  show ?thesis
    using v f s c r t1 t2 t3 t4 by simp
qed

text \<open>
  C6, as the code has it. When a verified \<open>payment.captured\<close> event is applied to an order
  in \<open>Payment Initiated\<close> and the user id in the event's notes is the order's owner, the
  cart afterwards is the cart before without any item of the owner: all of the owner's cart
  items go, whatever product they are for, and the cart items of every other user stay as
  they were.
\<close>

theorem captured_clears_owner_cart:
  assumes "verified L cfg req ''payment.captured'' e"
    and "pe_internal_order_id e = Some oid" and "oid \<noteq> 0"
    and "find_order oid (pe_order_id e) d = Some ord"
    and "o_status ord = ''Payment Initiated''"
    and "pe_user_id e = Some (o_user_id ord)" and "o_user_id ord \<noteq> 0"
  shows "cart_items (snd (razorpay_webhook L cfg req d)) =
           filter (\<lambda>c. ci_user_id c \<noteq> o_user_id ord) (cart_items d)"
  using webhook_verified [OF assms(1), of d]
    payment_captured_applied [OF assms(2,3,6,7,4,5)]
  by simp

theorem captured_clears_owner_cart_witness:
  "verified shop_libs shop_config (signed ''captured'') ''payment.captured'' captured_entity \<and>
   find_order 1 (Some ''order_R1'') shop = Some (hd (orders shop)) \<and>
   o_user_id (hd (orders shop)) = 1 \<and>
   cart_items (snd (razorpay_webhook shop_libs shop_config (signed ''captured'') shop)) =
     filter (\<lambda>c. ci_user_id c \<noteq> 1) (cart_items shop)"
proof -
  have v: "verified shop_libs shop_config (signed ''captured'') ''payment.captured'' captured_entity"
    by (simp add: verified_def shop_libs_def shop_config_def signed_def)
  have f: "find_order 1 (pe_order_id captured_entity) shop = Some (hd (orders shop))"
    by (simp add: find_order_def shop_def captured_entity_def)
  have i: "pe_internal_order_id captured_entity = Some 1"
    by (simp add: captured_entity_def)
  have s: "o_status (hd (orders shop)) = ''Payment Initiated''"
    by (simp add: shop_def)
  have u: "o_user_id (hd (orders shop)) = 1"
    by (simp add: shop_def)
  have n: "pe_user_id captured_entity = Some (o_user_id (hd (orders shop)))"
    by (simp add: u captured_entity_def)
  from captured_clears_owner_cart [OF v i _ f s n] v f u show ?thesis
    by (simp add: captured_entity_def)
qed

text \<open>
  C6, as the specification has it, fails in the concrete shop: order 1 of user 1 holds
  product 1 only, and the captured event for it removes the cart item that user 1 has for
  product 2.
\<close>

theorem captured_clears_whole_cart_counterexample:
  "verified shop_libs shop_config (signed ''captured'') ''payment.captured'' captured_entity \<and>
   map_option o_user_id (find_order 1 (Some ''order_R1'') shop) = Some 1 \<and>
   map oi_product_id (filter (\<lambda>i. oi_order_id i = 1) (order_items shop)) = [1] \<and>
   \<lparr>ci_id = 2, ci_user_id = 1, ci_product_id = 2, ci_quantity = 2\<rparr> \<in> set (cart_items shop) \<and>
   \<lparr>ci_id = 2, ci_user_id = 1, ci_product_id = 2, ci_quantity = 2\<rparr> \<notin>
     set (cart_items (snd (razorpay_webhook shop_libs shop_config (signed ''captured'') shop)))"
  by (simp add: verified_def shop_libs_def shop_config_def signed_def razorpay_webhook_def
      payment_captured_def truthy_int_def captured_entity_def find_order_def shop_def set_status_def)

text \<open>
  The user id of the notes is not compared with the owner of the order (the comment at
  line 570 asks for it): a verified captured event for order 1 of user 1 that names user 2
  empties the cart of user 2 and keeps that of user 1.
\<close>

lemma captured_forged_user_clears_other_cart:
  "verified shop_libs shop_config (signed ''captured-forged'') ''payment.captured'' forged_entity \<and>
   map_option o_user_id (find_order 1 (Some ''order_R1'') shop) = Some 1 \<and>
   cart_items (snd (razorpay_webhook shop_libs shop_config (signed ''captured-forged'') shop)) =
     filter (\<lambda>c. ci_user_id c \<noteq> 2) (cart_items shop)"
  by (simp add: verified_def shop_libs_def shop_config_def signed_def razorpay_webhook_def
      payment_captured_def truthy_int_def captured_entity_def forged_entity_def find_order_def
      shop_def set_status_def)

section \<open>Incomplete metadata\<close>

text \<open>
  C7, as the code has it. A verified \<open>payment.captured\<close> webhook whose notes lack the
  internal order id or the user id, and a verified \<open>payment.failed\<close> webhook whose notes
  lack the internal order id, are acknowledged with 200 and change nothing: no order status,
  no cart item, no stock. (A note that is present but zero counts as lacking.)
\<close>

theorem incomplete_metadata_acknowledged:
  assumes "verified L cfg req event_type e"
    and "event_type = ''payment.captured'' \<and>
           (\<not> truthy_int (pe_internal_order_id e) \<or> \<not> truthy_int (pe_user_id e)) \<or>
         event_type = ''payment.failed'' \<and> \<not> truthy_int (pe_internal_order_id e)"
  shows "razorpay_webhook L cfg req d = (Plain ''OK'' 200, d)"
  using webhook_verified [OF assms(1), of d] assms(2)
  by (auto simp: payment_captured_def payment_failed_def)

theorem incomplete_metadata_acknowledged_witness:
  "verified shop_libs shop_config (signed ''captured-anonymous'') ''payment.captured'' anonymous_entity \<and>
   \<not> truthy_int (pe_user_id anonymous_entity) \<and>
   razorpay_webhook shop_libs shop_config (signed ''captured-anonymous'') shop = (Plain ''OK'' 200, shop)"
proof -
  have v: "verified shop_libs shop_config (signed ''captured-anonymous'') ''payment.captured'' anonymous_entity"
    by (simp add: verified_def shop_libs_def shop_config_def signed_def)
  have m: "\<not> truthy_int (pe_user_id anonymous_entity)"
    by (simp add: truthy_int_def anonymous_entity_def)
  from incomplete_metadata_acknowledged [OF v, of shop] v m show ?thesis
    by simp
qed

text \<open>
  C7, as the specification has it, fails in the concrete shop: a verified \<open>payment.failed\<close>
  webhook without user id in its notes moves order 1 from \<open>Payment Initiated\<close> to
  \<open>Payment Failed\<close>. The failure branch never reads the user id.
\<close>

theorem failed_without_user_id_counterexample:
  "verified shop_libs shop_config (signed ''failed-anonymous'') ''payment.failed'' anonymous_entity \<and>
   pe_user_id anonymous_entity = None \<and>
   map o_status (orders shop) = [''Payment Initiated''] \<and>
   map o_status (orders (snd (razorpay_webhook shop_libs shop_config (signed ''failed-anonymous'') shop))) =
     [''Payment Failed'']"
  by (simp add: verified_def shop_libs_def shop_config_def signed_def razorpay_webhook_def
      payment_failed_def truthy_int_def captured_entity_def anonymous_entity_def find_order_def
      shop_def set_status_def)

section \<open>Auxiliary facts about checkout\<close>

lemma cart_total_None_iff:
  "cart_total d cart = None \<longleftrightarrow> (\<exists>c\<in>set cart. products d (ci_product_id c) = None)"
  by (induction cart) (auto split: option.splits)

lemma reserve_item_frame:
  "users (reserve_item k m c d) = users d"
  "orders (reserve_item k m c d) = orders d"
  by (simp_all add: reserve_item_def Let_def split: option.splits)

lemma fold_reserve_frame:
  "users (fold (reserve_item k m) cart d) = users d \<and>
   orders (fold (reserve_item k m) cart d) = orders d"
  by (induction cart arbitrary: d) (simp_all add: reserve_item_frame)

lemma initiate_payment_users: "users (initiate_payment k r d) = users d"
  by (simp add: initiate_payment_def)

text \<open>The POST branch is reached.\<close>

lemma checkout_post:
  assumes "checkout_ready d uid"
  obtains usr t where "users d uid = Some usr" "cart_total d (cart_of d uid) = Some t"
    "checkout cfg (Some uid) (POST frm) d =
       place_order cfg uid usr (cart_of d uid) t frm (open_session d)"
proof -
  from assms obtain usr where u: "users d uid = Some usr"
    by (auto simp: checkout_ready_def)
  from assms have "cart_total d (cart_of d uid) \<noteq> None"
    by (auto simp: checkout_ready_def cart_total_None_iff list_all_iff)
  then obtain t where t: "cart_total d (cart_of d uid) = Some t" by auto
  from assms have ne: "cart_of d uid \<noteq> []" by (simp add: checkout_ready_def)
  have "checkout cfg (Some uid) (POST frm) d =
       place_order cfg uid usr (cart_of d uid) t frm (open_session d)"
    using u t ne by (simp add: checkout_def cart_of_def [symmetric] Let_def)
  with u t that show thesis by blast
qed

lemma insufficient_users_update [simp]:
  "insufficient (d\<lparr>users := us\<rparr>) = insufficient d"
  by (rule ext) (simp add: insufficient_def)

lemma place_order_insufficient:
  assumes "find (insufficient d) cart = Some item"
  shows "place_order cfg uid usr cart t frm (open_session d) =
           (Redirect ''view_cart'' None, profile_saved uid usr frm d)"
  using assms
  by (simp add: place_order_def Let_def open_session_def modify_def commit_def profile_saved_def)

lemma place_order_gateway_failure:
  assumes "find (insufficient d) cart = None"
    and "payment_mode frm = ''UPI'' \<or> payment_mode frm = ''Debit Card''"
    and "case gateway_client cfg of None \<Rightarrow> True
         | Some (create, key_id) \<Rightarrow>
             create (order_create_args (next_id (map o_id (orders d))) uid t) = None"
  shows "place_order cfg uid usr cart t frm (open_session d) =
           (Redirect ''checkout'' None, profile_saved uid usr frm d)"
  using assms
  by (auto simp: place_order_def Let_def open_session_def modify_def commit_def rollback_def
      profile_saved_def split: option.splits)

lemma place_order_users:
  "users (snd (place_order cfg uid usr cart t frm (open_session d))) uid =
     Some (usr\<lparr>u_address := Some (delivery_address frm),
               u_contact_number := Some (contact_number frm)\<rparr>)"
  by (auto simp: place_order_def Let_def open_session_def modify_def commit_def rollback_def
      fold_reserve_frame initiate_payment_users split: option.splits)


lemma stock_suffices_find:
  "stock_suffices d uid \<longleftrightarrow> find (insufficient d) (cart_of d uid) = None"
  by (auto simp: stock_suffices_def find_None_iff list_all_iff)

lemma profile_saved_frame:
  "orders (profile_saved uid usr frm d) = orders d"
  "order_items (profile_saved uid usr frm d) = order_items d"
  "products (profile_saved uid usr frm d) = products d"
  "cart_items (profile_saved uid usr frm d) = cart_items d"
  "users (profile_saved uid usr frm d) uid =
     Some (usr\<lparr>u_address := Some (delivery_address frm),
               u_contact_number := Some (contact_number frm)\<rparr>)"
  by (simp_all add: profile_saved_def)

text \<open>The reservation loop, seen from outside.\<close>

lemma reserve_item_products:
  assumes "products d (ci_product_id c) = Some p"
  shows "products (reserve_item k m c d) =
           (products d)(ci_product_id c \<mapsto> p\<lparr>p_stock := p_stock p - ci_quantity c\<rparr>)"
  using assms by (simp add: reserve_item_def Let_def)

lemma reserve_item_cart:
  assumes "products d (ci_product_id c) = Some p"
  shows "cart_items (reserve_item k m c d) =
           (if m = ''COD'' then filter (\<lambda>x. ci_id x \<noteq> ci_id c) (cart_items d) else cart_items d)"
  using assms by (simp add: reserve_item_def Let_def)

lemma units_in_cart_Cons:
  "units_in_cart (c # cart) pid =
     (if ci_product_id c = pid then ci_quantity c else 0) + units_in_cart cart pid"
  by (simp add: units_in_cart_def)

lemma fold_reserve_stock:
  assumes "\<forall>c\<in>set cart. products d (ci_product_id c) \<noteq> None"
  shows "stock_of (fold (reserve_item k m) cart d) pid =
           map_option (\<lambda>n. n - units_in_cart cart pid) (stock_of d pid)"
  using assms
proof (induction cart arbitrary: d)
  case Nil
  then show ?case by (simp add: units_in_cart_def option.map_ident)
next
  case (Cons c cart)
  then obtain p where p: "products d (ci_product_id c) = Some p" by auto
  let ?d1 = "reserve_item k m c d"
  have pr: "products ?d1 = (products d)(ci_product_id c \<mapsto> p\<lparr>p_stock := p_stock p - ci_quantity c\<rparr>)"
    using p by (rule reserve_item_products)
  have ex: "\<forall>x\<in>set cart. products ?d1 (ci_product_id x) \<noteq> None"
    using Cons.prems by (simp add: pr)
  have st: "stock_of ?d1 pid =
              map_option (\<lambda>n. n - (if ci_product_id c = pid then ci_quantity c else 0)) (stock_of d pid)"
    using p by (cases "products d pid") (auto simp: stock_of_def pr)
  show ?case
    using Cons.IH [OF ex]
    by (simp add: st units_in_cart_Cons option.map_comp comp_def algebra_simps)
qed

lemma fold_reserve_cart:
  assumes "\<forall>c\<in>set cart. products d (ci_product_id c) \<noteq> None"
  shows "cart_items (fold (reserve_item k ''COD'') cart d) =
           filter (\<lambda>x. ci_id x \<notin> ci_id ` set cart) (cart_items d)"
  using assms
proof (induction cart arbitrary: d)
  case Nil
  then show ?case by simp
next
  case (Cons c cart)
  then obtain p where p: "products d (ci_product_id c) = Some p" by auto
  let ?d1 = "reserve_item k ''COD'' c d"
  have ex: "\<forall>x\<in>set cart. products ?d1 (ci_product_id x) \<noteq> None"
    using Cons.prems by (simp add: reserve_item_products [OF p])
  show ?case
    using Cons.IH [OF ex]
    by (auto simp: reserve_item_cart [OF p] intro: filter_cong)
qed

lemma place_order_cod:
  assumes "find (insufficient d) cart = None" and "payment_mode frm = ''COD''"
  shows "place_order cfg uid usr cart t frm (open_session d) =
           (Redirect ''order_confirmation'' (Some (next_id (map o_id (orders d)))),
            fold (reserve_item (next_id (map o_id (orders d))) ''COD'') cart
              ((profile_saved uid usr frm d)
                 \<lparr>orders := orders d @
                    [\<lparr>o_id = next_id (map o_id (orders d)), o_user_id = uid, o_total_amount = t,
                      o_status = ''Pending'', o_delivery_address = delivery_address frm,
                      o_contact_number = contact_number frm, o_payment_mode = ''COD'',
                      o_transaction_id = None\<rparr>]\<rparr>))"
  using assms
  by (simp add: place_order_def Let_def open_session_def modify_def commit_def profile_saved_def)

section \<open>Checkout: profile update and rollback\<close>

text \<open>
  C10. A checkout POST of a logged-in user whose cart is not empty (and whose cart items
  refer to existing products) stores the submitted delivery address and contact number in
  the user's row, and that row is committed whatever happens next. In particular, when some
  cart item asks for more than the stock, the submission is sent back to the cart with no
  order, no order item, no stock change and no cart change, and the profile is updated all
  the same.
\<close>

theorem checkout_saves_profile_first:
  assumes "checkout_ready d uid" and "users d uid = Some usr"
  shows "users (snd (checkout cfg (Some uid) (POST frm) d)) uid =
           Some (usr\<lparr>u_address := Some (delivery_address frm),
                     u_contact_number := Some (contact_number frm)\<rparr>) \<and>
         (\<not> stock_suffices d uid \<longrightarrow>
            fst (checkout cfg (Some uid) (POST frm) d) = Redirect ''view_cart'' None \<and>
            orders (snd (checkout cfg (Some uid) (POST frm) d)) = orders d \<and>
            order_items (snd (checkout cfg (Some uid) (POST frm) d)) = order_items d \<and>
            products (snd (checkout cfg (Some uid) (POST frm) d)) = products d \<and>
            cart_items (snd (checkout cfg (Some uid) (POST frm) d)) = cart_items d)"
proof -
  from checkout_post [OF assms(1), of cfg frm] assms(2)
  obtain t where c: "checkout cfg (Some uid) (POST frm) d =
       place_order cfg uid usr (cart_of d uid) t frm (open_session d)"
    by auto
  have a: "users (snd (checkout cfg (Some uid) (POST frm) d)) uid =
           Some (usr\<lparr>u_address := Some (delivery_address frm),
                     u_contact_number := Some (contact_number frm)\<rparr>)"
    by (simp only: c place_order_users)
  have b: "checkout cfg (Some uid) (POST frm) d =
             (Redirect ''view_cart'' None, profile_saved uid usr frm d)"
    if "\<not> stock_suffices d uid"
  proof -
    from that obtain item where "find (insufficient d) (cart_of d uid) = Some item"
      by (auto simp: stock_suffices_find)
    then show ?thesis by (simp only: c place_order_insufficient)
  qed
  show ?thesis using a b by (simp add: profile_saved_frame)
qed

theorem checkout_saves_profile_first_witness:
  "checkout_ready greedy_shop 1 \<and> users greedy_shop 1 = Some alice \<and>
   \<not> stock_suffices greedy_shop 1 \<and>
   users (snd (checkout shop_config (Some 1) (POST cod_form) greedy_shop)) 1 =
     Some (alice\<lparr>u_address := Some ''2 Side St'', u_contact_number := Some ''222''\<rparr>) \<and>
   orders (snd (checkout shop_config (Some 1) (POST cod_form) greedy_shop)) = orders greedy_shop \<and>
   products (snd (checkout shop_config (Some 1) (POST cod_form) greedy_shop)) = products greedy_shop"
proof -
  have r: "checkout_ready greedy_shop 1"
    by (simp add: checkout_ready_def cart_of_def greedy_shop_def set_quantity_def shop_def)
  have u: "users greedy_shop 1 = Some alice"
    by (simp add: greedy_shop_def set_quantity_def shop_def)
  have n: "\<not> stock_suffices greedy_shop 1"
    by (simp add: stock_suffices_def cart_of_def insufficient_def greedy_shop_def
        set_quantity_def shop_def)
  from checkout_saves_profile_first [OF r u, of shop_config cod_form] r u n show ?thesis
    by (simp add: cod_form_def)
qed

text \<open>
  C3. A checkout POST with an online payment mode (\<open>UPI\<close> or \<open>Debit Card\<close>) whose
  gateway call fails, because the gateway is not configured, its library is missing or
  \<open>order.create\<close> raises, leaves the order table, the order-item table, every product
  (and so every stock) and the cart exactly as they were before the call.
\<close>

theorem gateway_failure_rolls_back:
  assumes "checkout_ready d uid"
    and "payment_mode frm = ''UPI'' \<or> payment_mode frm = ''Debit Card''"
    and "gateway_call_fails cfg d uid"
  shows "orders (snd (checkout cfg (Some uid) (POST frm) d)) = orders d \<and>
         order_items (snd (checkout cfg (Some uid) (POST frm) d)) = order_items d \<and>
         products (snd (checkout cfg (Some uid) (POST frm) d)) = products d \<and>
         cart_items (snd (checkout cfg (Some uid) (POST frm) d)) = cart_items d \<and>
         fst (checkout cfg (Some uid) (POST frm) d) =
           (if stock_suffices d uid then Redirect ''checkout'' None
            else Redirect ''view_cart'' None)"
proof -
  from checkout_post [OF assms(1), of cfg frm]
  obtain usr t where t: "cart_total d (cart_of d uid) = Some t"
    and c: "checkout cfg (Some uid) (POST frm) d =
       place_order cfg uid usr (cart_of d uid) t frm (open_session d)"
    by blast
  have g: "case gateway_client cfg of None \<Rightarrow> True
         | Some (create, key_id) \<Rightarrow>
             create (order_create_args (next_id (map o_id (orders d))) uid t) = None"
    using assms(3) t by (simp add: gateway_call_fails_def split: option.splits prod.splits)
  show ?thesis
  proof (cases "stock_suffices d uid")
    case True
    then have "find (insufficient d) (cart_of d uid) = None" by (simp add: stock_suffices_find)
    from place_order_gateway_failure [OF this assms(2) g] True show ?thesis
      by (simp add: c profile_saved_frame)
  next
    case False
    then obtain item where "find (insufficient d) (cart_of d uid) = Some item"
      by (auto simp: stock_suffices_find)
    from place_order_insufficient [OF this] False show ?thesis
      by (simp add: c profile_saved_frame)
  qed
qed

theorem gateway_failure_rolls_back_witness:
  "checkout_ready shop 1 \<and> gateway_call_fails offline_config shop 1 \<and> stock_suffices shop 1 \<and>
   fst (checkout offline_config (Some 1) (POST upi_form) shop) = Redirect ''checkout'' None \<and>
   orders (snd (checkout offline_config (Some 1) (POST upi_form) shop)) = orders shop \<and>
   order_items (snd (checkout offline_config (Some 1) (POST upi_form) shop)) = order_items shop \<and>
   products (snd (checkout offline_config (Some 1) (POST upi_form) shop)) = products shop"
proof -
  have r: "checkout_ready shop 1"
    by (simp add: checkout_ready_def cart_of_def shop_def)
  have m: "payment_mode upi_form = ''UPI'' \<or> payment_mode upi_form = ''Debit Card''"
    by (simp add: upi_form_def)
  have g: "gateway_call_fails offline_config shop 1"
    by (simp add: gateway_call_fails_def gateway_client_def offline_config_def shop_config_def
        cart_of_def shop_def)
  have s: "stock_suffices shop 1"
    by (simp add: stock_suffices_def cart_of_def insufficient_def shop_def)
  from gateway_failure_rolls_back [OF r m g] r g s show ?thesis
    by simp
qed

section \<open>Cash on delivery\<close>

text \<open>
  C2, as the code has it. A checkout POST with payment mode \<open>COD\<close> in which every cart
  item asks for no more than the current stock is sent to the order confirmation of a new
  order; in the one commit that ends it, the order table has gained exactly that order, which
  belongs to the user and has status \<open>Pending\<close>, the stock of every product has gone
  down by the units the user's cart held of it, no cart item of the user is left, and no
  cart item has been added.
\<close>

theorem cod_checkout_places_pending_order:
  assumes "checkout_ready d uid" and "stock_suffices d uid" and "payment_mode frm = ''COD''"
  shows "fst (checkout cfg (Some uid) (POST frm) d) =
           Redirect ''order_confirmation'' (Some (next_id (map o_id (orders d)))) \<and>
         (\<exists>ord. orders (snd (checkout cfg (Some uid) (POST frm) d)) = orders d @ [ord] \<and>
                o_id ord = next_id (map o_id (orders d)) \<and> o_user_id ord = uid \<and>
                o_payment_mode ord = ''COD'' \<and> o_status ord = ''Pending'') \<and>
         (\<forall>pid. stock_of (snd (checkout cfg (Some uid) (POST frm) d)) pid =
                  map_option (\<lambda>n. n - units_in_cart (cart_of d uid) pid) (stock_of d pid)) \<and>
         cart_of (snd (checkout cfg (Some uid) (POST frm) d)) uid = [] \<and>
         set (cart_items (snd (checkout cfg (Some uid) (POST frm) d))) \<subseteq> set (cart_items d)"
proof -
  from checkout_post [OF assms(1), of cfg frm]
  obtain usr t where c: "checkout cfg (Some uid) (POST frm) d =
       place_order cfg uid usr (cart_of d uid) t frm (open_session d)"
    by blast
  let ?k = "next_id (map o_id (orders d))"
  let ?ord = "\<lparr>o_id = ?k, o_user_id = uid, o_total_amount = t,
                      o_status = ''Pending'', o_delivery_address = delivery_address frm,
                      o_contact_number = contact_number frm, o_payment_mode = ''COD'',
                      o_transaction_id = None\<rparr>"
  let ?d0 = "(profile_saved uid usr frm d)\<lparr>orders := orders d @ [?ord]\<rparr>"
  let ?d' = "fold (reserve_item ?k ''COD'') (cart_of d uid) ?d0"
  have f: "find (insufficient d) (cart_of d uid) = None"
    using assms(2) by (simp add: stock_suffices_find)
  have r: "checkout cfg (Some uid) (POST frm) d = (Redirect ''order_confirmation'' (Some ?k), ?d')"
    by (simp only: c place_order_cod [OF f assms(3)])
  have ex: "\<forall>c\<in>set (cart_of d uid). products ?d0 (ci_product_id c) \<noteq> None"
    using assms(1) by (simp add: checkout_ready_def list_all_iff profile_saved_def)
  have o: "orders ?d' = orders d @ [?ord]"
    by (simp add: fold_reserve_frame)
  have s: "stock_of ?d' pid = map_option (\<lambda>n. n - units_in_cart (cart_of d uid) pid) (stock_of d pid)"
    for pid
    using fold_reserve_stock [OF ex, of ?k "''COD''" pid]
    by (simp add: stock_of_def profile_saved_def)
  have ci: "cart_items ?d' = filter (\<lambda>x. ci_id x \<notin> ci_id ` set (cart_of d uid)) (cart_items d)"
    using fold_reserve_cart [OF ex, of ?k] by (simp add: profile_saved_def)
  have e: "cart_of ?d' uid = []"
    unfolding cart_of_def [of ?d'] ci
    by (auto simp: filter_empty_conv cart_of_def)
  have sub: "set (cart_items ?d') \<subseteq> set (cart_items d)"
    by (auto simp: ci)
  have oe: "\<exists>ord. orders ?d' = orders d @ [ord] \<and> o_id ord = ?k \<and> o_user_id ord = uid \<and>
                o_payment_mode ord = ''COD'' \<and> o_status ord = ''Pending''"
    using o by simp
  show ?thesis
    unfolding r fst_conv snd_conv
    using oe s e sub by blast
qed

theorem cod_checkout_places_pending_order_witness:
  "checkout_ready shop 1 \<and> stock_suffices shop 1 \<and> payment_mode cod_form = ''COD'' \<and>
   fst (checkout shop_config (Some 1) (POST cod_form) shop) = Redirect ''order_confirmation'' (Some 2) \<and>
   stock_of (snd (checkout shop_config (Some 1) (POST cod_form) shop)) 2 = Some 1 \<and>
   cart_of (snd (checkout shop_config (Some 1) (POST cod_form) shop)) 1 = []"
proof -
  have r: "checkout_ready shop 1"
    by (simp add: checkout_ready_def cart_of_def shop_def)
  have s: "stock_suffices shop 1"
    by (simp add: stock_suffices_def cart_of_def insufficient_def shop_def)
  have m: "payment_mode cod_form = ''COD''"
    by (simp add: cod_form_def)
  have k: "next_id (map o_id (orders shop)) = 2"
    by (simp add: next_id_def shop_def)
  have u: "units_in_cart (cart_of shop 1) 2 = 2"
    by (simp add: units_in_cart_def cart_of_def shop_def)
  have t: "stock_of shop 2 = Some 3"
    by (simp add: stock_of_def shop_def)
  from cod_checkout_places_pending_order [OF r s m, of shop_config] r s m show ?thesis
    by (simp add: k u t)
qed

text \<open>
  C2, as the specification has it, fails in the concrete shop: user 1 checks out with cash
  on delivery, the stock suffices, and the one order this creates has status \<open>Pending\<close>,
  not \<open>Confirmed\<close>.
\<close>

theorem cod_order_stays_pending_counterexample:
  "checkout_ready shop 1 \<and> stock_suffices shop 1 \<and> payment_mode cod_form = ''COD'' \<and>
   map o_status (filter (\<lambda>r. o_id r \<notin> o_id ` set (orders shop))
      (orders (snd (checkout shop_config (Some 1) (POST cod_form) shop)))) = [''Pending'']"
  by (simp add: checkout_ready_def stock_suffices_def cart_of_def insufficient_def shop_def
      cod_form_def checkout_def place_order_def Let_def open_session_def modify_def commit_def
      reserve_item_def next_id_def)

section \<open>The cart bound\<close>

text \<open>A fresh key is not in the table.\<close>

lemma fold_max_bounds:
  "(a::int) \<le> fold max ids a \<and> (\<forall>x\<in>set ids. x \<le> fold max ids a)"
proof (induction ids arbitrary: a)
  case Nil
  then show ?case by simp
next
  case (Cons i ids)
  have "max i a \<le> fold max ids (max i a)" using Cons.IH [of "max i a"] by simp
  moreover have "\<forall>x\<in>set ids. x \<le> fold max ids (max i a)" using Cons.IH [of "max i a"] by simp
  ultimately show ?case by auto
qed

lemma next_id_fresh: "next_id ids \<notin> set ids"
proof
  assume "next_id ids \<in> set ids"
  then have "next_id ids \<le> fold max ids 0" using fold_max_bounds [of 0 ids] by blast
  then show False by (simp add: next_id_def)
qed

lemma cart_bounded_iff:
  "cart_bounded d \<longleftrightarrow>
     (\<forall>c\<in>set (cart_items d). \<exists>p. products d (ci_product_id c) = Some p \<and>
        1 \<le> ci_quantity c \<and> ci_quantity c \<le> p_stock p)"
  by (auto simp: cart_bounded_def list_all_iff split: option.splits)

lemma same_key_same_item:
  assumes "cart_keys_distinct d" and "x \<in> set (cart_items d)" and "y \<in> set (cart_items d)"
    and "ci_id x = ci_id y"
  shows "x = y"
  using assms by (auto simp: cart_keys_distinct_def distinct_map dest: inj_onD)

lemma set_quantity_keys:
  "cart_keys_distinct (set_quantity k q d) = cart_keys_distinct d"
proof -
  let ?f = "\<lambda>c. if ci_id c = k then c\<lparr>ci_quantity := q\<rparr> else c"
  have m: "map ci_id (map ?f xs) = map ci_id xs" for xs
    by (induction xs) auto
  have "cart_items (set_quantity k q d) = map ?f (cart_items d)"
    by (simp add: set_quantity_def)
  then show ?thesis
    unfolding cart_keys_distinct_def by (simp only: m)
qed

lemma set_quantity_bounded:
  assumes "cart_keys_distinct d" and "cart_bounded d"
    and "item \<in> set (cart_items d)" and "ci_id item = k"
    and "products d (ci_product_id item) = Some p" and "1 \<le> q" and "q \<le> p_stock p"
  shows "cart_bounded (set_quantity k q d)"
  unfolding cart_bounded_iff
proof
  fix c assume "c \<in> set (cart_items (set_quantity k q d))"
  then obtain c0 where c0: "c0 \<in> set (cart_items d)"
    and c: "c = (if ci_id c0 = k then c0\<lparr>ci_quantity := q\<rparr> else c0)"
    by (auto simp: set_quantity_def)
  show "\<exists>p. products (set_quantity k q d) (ci_product_id c) = Some p \<and>
          1 \<le> ci_quantity c \<and> ci_quantity c \<le> p_stock p"
  proof (cases "ci_id c0 = k")
    case True
    then have "c0 = item" using same_key_same_item [OF assms(1) c0 assms(3)] assms(4) by simp
    then show ?thesis using c True assms(5,6,7) by (simp add: set_quantity_def)
  next
    case False
    then show ?thesis using c c0 assms(2) by (simp add: cart_bounded_iff set_quantity_def)
  qed
qed

lemma find_cart_item:
  "find P (cart_items d) = Some item \<Longrightarrow> item \<in> set (cart_items d) \<and> P item"
  by (auto simp: find_Some_iff)

lemma add_to_cart_keeps_bound:
  assumes "cart_keys_distinct d" and "cart_bounded d"
  shows "cart_keys_distinct (snd (add_to_cart session product_id d)) \<and>
         cart_bounded (snd (add_to_cart session product_id d))"
proof (cases session)
  case None
  then show ?thesis using assms by (simp add: add_to_cart_def)
next
  case (Some user_id)
  show ?thesis
  proof (cases "products d product_id")
    case None
    then show ?thesis using assms Some by (simp add: add_to_cart_def)
  next
    case p: (Some prod)
    show ?thesis
    proof (cases "p_stock prod \<le> 0")
      case True
      then show ?thesis using assms Some p by (simp add: add_to_cart_def)
    next
      case pos: False
      show ?thesis
      proof (cases "find (\<lambda>c. ci_user_id c = user_id \<and> ci_product_id c = product_id) (cart_items d)")
        case None
        let ?new = "\<lparr>ci_id = next_id (map ci_id (cart_items d)), ci_user_id = user_id,
                      ci_product_id = product_id, ci_quantity = 1\<rparr>"
        have r: "snd (add_to_cart session product_id d) = d\<lparr>cart_items := cart_items d @ [?new]\<rparr>"
          using Some p pos None by (simp add: add_to_cart_def)
        have k: "cart_keys_distinct (d\<lparr>cart_items := cart_items d @ [?new]\<rparr>)"
          using assms(1) next_id_fresh [of "map ci_id (cart_items d)"]
          by (simp add: cart_keys_distinct_def)
        have b: "cart_bounded (d\<lparr>cart_items := cart_items d @ [?new]\<rparr>)"
          using assms(2) p pos by (auto simp: cart_bounded_iff)
        show ?thesis using r k b by simp
      next
        case f: (Some item)
        then have i: "item \<in> set (cart_items d)" "ci_product_id item = product_id"
          using find_cart_item [OF f] by auto
        show ?thesis
        proof (cases "ci_quantity item \<ge> p_stock prod")
          case True
          then show ?thesis using assms Some p pos f by (simp add: add_to_cart_def)
        next
          case False
          have r: "snd (add_to_cart session product_id d) =
                     set_quantity (ci_id item) (ci_quantity item + 1) d"
            using Some p pos f False by (simp add: add_to_cart_def)
          have q: "1 \<le> ci_quantity item" using assms(2) i(1) by (auto simp: cart_bounded_iff)
          have "cart_bounded (set_quantity (ci_id item) (ci_quantity item + 1) d)"
            using set_quantity_bounded [OF assms i(1) refl, of prod "ci_quantity item + 1"]
              p i(2) q False by simp
          then show ?thesis using r assms(1) by (simp add: set_quantity_keys)
        qed
      qed
    qed
  qed
qed

lemma filter_keeps_bound:
  assumes "cart_keys_distinct d" and "cart_bounded d"
    and "cart_items d' = filter P (cart_items d)" and "products d' = products d"
  shows "cart_keys_distinct d' \<and> cart_bounded d'"
  using assms by (auto simp: cart_keys_distinct_def cart_bounded_iff distinct_map_filter)

lemma update_cart_keeps_bound:
  assumes "cart_keys_distinct d" and "cart_bounded d"
  shows "cart_keys_distinct (snd (update_cart session item_id quantity d)) \<and>
         cart_bounded (snd (update_cart session item_id quantity d))"
proof (cases "\<exists>user_id item new_quantity. session = Some user_id \<and>
          find (\<lambda>c. ci_id c = item_id) (cart_items d) = Some item \<and>
          ci_user_id item = user_id \<and> quantity = Some new_quantity \<and> 0 \<le> new_quantity")
  case False
  then have "snd (update_cart session item_id quantity d) = d"
    by (auto simp: update_cart_def split: option.splits)
  then show ?thesis using assms by simp
next
  case True
  then obtain user_id item new_quantity where h: "session = Some user_id"
    "find (\<lambda>c. ci_id c = item_id) (cart_items d) = Some item"
    "ci_user_id item = user_id" "quantity = Some new_quantity" "0 \<le> new_quantity"
    by blast
  have i: "item \<in> set (cart_items d)" "ci_id item = item_id"
    using find_cart_item [OF h(2)] by auto
  from assms(2) i(1) obtain p where p: "products d (ci_product_id item) = Some p"
    "1 \<le> ci_quantity item" "ci_quantity item \<le> p_stock p"
    by (auto simp: cart_bounded_iff)
  show ?thesis
  proof (cases "new_quantity = 0")
    case True
    then have "snd (update_cart session item_id quantity d) =
                 d\<lparr>cart_items := filter (\<lambda>c. ci_id c \<noteq> item_id) (cart_items d)\<rparr>"
      using h by (simp add: update_cart_def)
    then show ?thesis using filter_keeps_bound [OF assms] by simp
  next
    case False
    then have r: "snd (update_cart session item_id quantity d) =
                 set_quantity item_id (if new_quantity > p_stock p then p_stock p else new_quantity) d"
      using h p by (simp add: update_cart_def)
    have "cart_bounded (set_quantity item_id (if new_quantity > p_stock p then p_stock p else new_quantity) d)"
      using set_quantity_bounded [OF assms i p(1)] False h(5) p(2,3) by auto
    then show ?thesis using r assms(1) by (simp add: set_quantity_keys)
  qed
qed

lemma payment_captured_cart:
  "products (payment_captured e d) = products d \<and>
   (\<exists>P. cart_items (payment_captured e d) = filter P (cart_items d))"
proof (cases "payment_captured e d = d")
  case True
  have "cart_items d = filter (\<lambda>_. True) (cart_items d)" by simp
  then show ?thesis using True by metis
next
  case False
  then show ?thesis
    by (auto simp: payment_captured_def set_status_def Let_def split: option.splits if_splits)
qed

lemma payment_failed_cart:
  "products (payment_failed e d) = products d \<and> cart_items (payment_failed e d) = cart_items d"
  by (auto simp: payment_failed_def set_status_def split: option.splits)

lemma webhook_cart:
  "products (snd (razorpay_webhook L cfg req d)) = products d \<and>
   (\<exists>P. cart_items (snd (razorpay_webhook L cfg req d)) = filter P (cart_items d))"
proof -
  have t: "\<exists>P. cart_items d = filter P (cart_items d)"
    by (rule exI [of _ "\<lambda>_. True"]) simp
  have f: "\<exists>P. cart_items (payment_failed e d) = filter P (cart_items d)" for e
    using t by (simp add: payment_failed_cart)
  have "snd (razorpay_webhook L cfg req d) = d \<or>
        (\<exists>e. snd (razorpay_webhook L cfg req d) = payment_captured e d) \<or>
        (\<exists>e. snd (razorpay_webhook L cfg req d) = payment_failed e d)"
    by (auto simp: razorpay_webhook_def split: option.splits json_result.splits)
  then consider "snd (razorpay_webhook L cfg req d) = d"
    | e where "snd (razorpay_webhook L cfg req d) = payment_captured e d"
    | e where "snd (razorpay_webhook L cfg req d) = payment_failed e d"
    by blast
  then show ?thesis
  proof cases
    case 1
    then show ?thesis using t by simp
  next
    case 2
    then show ?thesis using payment_captured_cart [of e d] by simp
  next
    case 3
    then show ?thesis using f [of e] payment_failed_cart [of e d] by simp
  qed
qed

lemma step_keeps_bound:
  assumes "cart_keys_distinct d" and "cart_bounded d"
  shows "cart_keys_distinct (step L cfg op d) \<and> cart_bounded (step L cfg op d)"
proof (cases op)
  case (AddToCart session product_id)
  then show ?thesis using add_to_cart_keeps_bound [OF assms] by simp
next
  case (UpdateCart session item_id quantity)
  then show ?thesis using update_cart_keeps_bound [OF assms] by simp
next
  case (Webhook req)
  from webhook_cart [of L cfg req d] obtain P where
    "cart_items (snd (razorpay_webhook L cfg req d)) = filter P (cart_items d)"
    "products (snd (razorpay_webhook L cfg req d)) = products d" by blast
  from filter_keeps_bound [OF assms this] Webhook show ?thesis by simp
qed

lemma two_hubs_in_cart:
  "snd (add_to_cart (Some 1) 2 (snd (add_to_cart (Some 1) 2 fresh_shop))) =
     fresh_shop\<lparr>cart_items := [\<lparr>ci_id = 1, ci_user_id = 1, ci_product_id = 2, ci_quantity = 2\<rparr>]\<rparr>"
  by (simp add: add_to_cart_def fresh_shop_def shop_def next_id_def set_quantity_def)

text \<open>
  C8, as the code has it. From any database in which the cart-item keys are distinct and
  every cart item's quantity lies between 1 and the stock of its product (an empty cart, for
  one), every sequence of add-to-cart, cart-update and webhook operations leads to a
  database in which that is so again. Checkout is not among these operations.
\<close>

theorem cart_bound_kept_without_checkout:
  assumes "cart_keys_distinct d" and "cart_bounded d"
  shows "cart_keys_distinct (run L cfg ops d) \<and> cart_bounded (run L cfg ops d)"
  using assms unfolding run_def
proof (induction ops arbitrary: d)
  case Nil
  then show ?case by simp
next
  case (Cons op ops)
  from step_keeps_bound [OF Cons.prems, of L cfg op]
  show ?case using Cons.IH [of "step L cfg op d"] by simp
qed


theorem cart_bound_kept_without_checkout_witness:
  "cart_keys_distinct shop \<and> cart_bounded shop \<and>
   cart_bounded (run shop_libs shop_config
      [AddToCart (Some 2) 2, UpdateCart (Some 1) 2 (Some 9), Webhook (signed ''captured-forged'')] shop)"
proof -
  have k: "cart_keys_distinct shop"
    by (simp add: cart_keys_distinct_def shop_def)
  have b: "cart_bounded shop"
    by (simp add: cart_bounded_def shop_def)
  from cart_bound_kept_without_checkout [OF k b] k b show ?thesis
    by simp
qed

text \<open>
  C8, as the specification has it, fails on the first day of the shop: user 1 puts two hubs
  in the cart (three are in stock), which keeps the bound, and checks out with an online
  payment mode. The gateway accepts, the stock goes down to one, the cart item is retained
  with quantity two.
\<close>

theorem online_checkout_breaks_cart_bound_counterexample:
  "cart_bounded fresh_shop \<and>
   cart_bounded (snd (add_to_cart (Some 1) 2 (snd (add_to_cart (Some 1) 2 fresh_shop)))) \<and>
   \<not> cart_bounded (snd (checkout shop_config (Some 1) (POST upi_form)
        (snd (add_to_cart (Some 1) 2 (snd (add_to_cart (Some 1) 2 fresh_shop))))))"
  unfolding two_hubs_in_cart
  by (simp add: cart_bounded_def fresh_shop_def shop_def checkout_def place_order_def Let_def
      open_session_def modify_def commit_def reserve_item_def next_id_def upi_form_def
      gateway_client_def shop_config_def order_create_args_def initiate_payment_def insufficient_def)

text \<open>
  Cash on delivery breaks the bound for the other users: user 2 buys all four mice, and the
  mouse in the cart of user 1 is one more than the stock.
\<close>

lemma cod_checkout_breaks_other_cart_bound:
  "cart_bounded shop \<and>
   \<not> cart_bounded (snd (checkout shop_config (Some 2) (POST cod_form)
        (snd (update_cart (Some 2) 3 (Some 4) shop))))"
  by (simp add: cart_bounded_def shop_def update_cart_def set_quantity_def checkout_def
      place_order_def Let_def open_session_def modify_def commit_def reserve_item_def next_id_def
      cod_form_def insufficient_def)

end
